theory Spec2Isabelle
  imports Main "HOL-Library.Word"
begin

section \<open>Go values seen by package web and the Panics middleware\<close>

text \<open>
  The two source files are \<^verbatim>\<open>Respond\<close>, \<^verbatim>\<open>RespondError\<close> and
  \<^verbatim>\<open>zipkinSetErrorOnSpan\<close> of package \<^verbatim>\<open>web\<close>, and \<^verbatim>\<open>Panics\<close> of package
  \<^verbatim>\<open>middleware\<close>. Everything they do is a call on an interface or a library
  (\<^verbatim>\<open>http.ResponseWriter\<close>, \<^verbatim>\<open>trace.Span\<close>, \<^verbatim>\<open>log\<close>, \<^verbatim>\<open>encoding/json\<close>), so the
  model is a state record that holds the calls made on each of them, in order, and the
  functions pass it along. A Go \<^verbatim>\<open>int\<close> is a 64-bit word, as on the 64-bit platforms;
  the conversion \<^verbatim>\<open>int32(statusCode)\<close> keeps the low 32 bits.
\<close>

type_synonym go_int = "64 word"
type_synonym int32 = "32 word"

definition StatusNoContent :: go_int where
  "StatusNoContent = 204"

definition StatusInternalServerError :: go_int where
  "StatusInternalServerError = 500"

text \<open>\<^verbatim>\<open>http.StatusText(http.StatusInternalServerError)\<close>, the entry of net/http's table.\<close>

definition StatusText_InternalServerError :: string where
  "StatusText_InternalServerError = ''Internal Server Error''"

subsection \<open>Errors\<close>

text \<open>
  A non-nil \<^verbatim>\<open>error\<close> value, as far as this code can observe it: the text of
  \<^verbatim>\<open>Error()\<close>; whether its dynamic type satisfies the interface \<^verbatim>\<open>PublicError\<close>, and then
  what \<^verbatim>\<open>Code()\<close> and \<^verbatim>\<open>Detail()\<close> return; whether it satisfies the interface
  \<^verbatim>\<open>causer\<close> of github.com/pkg/errors, and then what \<^verbatim>\<open>Cause()\<close> returns (which may be
  nil). The two capabilities are independent of each other, as interface conformance is in
  Go. An \<^verbatim>\<open>error\<close> is \<open>go_error option\<close>, with \<open>None\<close> for nil. Chains of causes
  are finite, as those built by \<^verbatim>\<open>errors.Wrap\<close> and \<^verbatim>\<open>errors.WithStack\<close> are.
\<close>

datatype go_error =
  GoError (ErrorMsg: string) (PublicError: "(string \<times> string) option")
    (causer: "go_error option option")

text \<open>
  \<^verbatim>\<open>errors.Cause\<close>: while the error is not nil and is a \<^verbatim>\<open>causer\<close>, replace it by its
  cause; return what is left.
\<close>

fun Cause :: "go_error option \<Rightarrow> go_error option" where
  "Cause None = None"
| "Cause (Some (GoError m pub None)) = Some (GoError m pub None)"
| "Cause (Some (GoError m pub (Some c))) = Cause c"

subsection \<open>Request-scoped values and the context\<close>

text \<open>
  Modelled from the spec: the declaration of \<^verbatim>\<open>web.Values\<close> is not among the source
  files; the code reads and writes its fields \<^verbatim>\<open>StatusCode\<close> and \<^verbatim>\<open>TraceID\<close>, which the
  spec describes as a status-code field and a trace identifier.
\<close>

record Values =
  StatusCode :: go_int
  TraceID :: string

text \<open>
  The context carries a pointer \<^verbatim>\<open>*Values\<close> under \<^verbatim>\<open>KeyValues\<close>, or nothing: the model
  of a context is what \<^verbatim>\<open>ctx.Value(KeyValues).(*Values)\<close> yields, \<open>Some\<close> of an address
  when \<^verbatim>\<open>ok\<close> is true. The struct itself lives in the store, where the handler and
  \<^verbatim>\<open>Respond\<close> update it in place. A context derived by \<^verbatim>\<open>trace.StartSpan\<close> answers
  this lookup as its parent does.
\<close>

type_synonym addr = nat
type_synonym "context" = "addr option"

subsection \<open>The response envelope and its JSON form\<close>

record ErrorResponse =
  Error :: string
  Detail :: string

text \<open>
  \<^verbatim>\<open>encoding/json\<close> writes a string between double quotes and copies every byte that
  needs no escaping: the printable ASCII bytes and DEL, apart from the double quote, the
  backslash and, as \<^verbatim>\<open>json.Marshal\<close> escapes HTML, the three bytes \<^verbatim>\<open><\<close>, \<^verbatim>\<open>>\<close>
  and \<^verbatim>\<open>&\<close>. What the library writes for a string with other bytes (escapes, checks of the
  UTF-8 encoding) is left to the parameter \<open>esc\<close>.
\<close>

definition htmlSafe :: "char \<Rightarrow> bool" where
  "htmlSafe c \<longleftrightarrow>
     (0x20::nat) \<le> of_char c \<and> of_char c < (0x80::nat) \<and>
     c \<notin> {CHR 0x22, CHR 0x5C, CHR ''<'', CHR ''>'', CHR ''&''}"

definition json_string :: "(string \<Rightarrow> string) \<Rightarrow> string \<Rightarrow> string" where
  "json_string esc s = [CHR 0x22] @ (if list_all htmlSafe s then s else esc s) @ [CHR 0x22]"

text \<open>
  \<^verbatim>\<open>json.Marshal\<close> of an \<^verbatim>\<open>ErrorResponse\<close>: the two fields in the order of the
  declaration, under the names of their tags \<^verbatim>\<open>json:"error"\<close> and \<^verbatim>\<open>json:"message"\<close>.
  It never fails: both fields are strings.
\<close>

definition json_ErrorResponse :: "(string \<Rightarrow> string) \<Rightarrow> ErrorResponse \<Rightarrow> string" where
  \<open>json_ErrorResponse esc er =
     ''{"error":'' @ json_string esc (Error er) @ '',"message":'' @ json_string esc (Detail er) @ ''}''\<close>

definition Marshal_ErrorResponse ::
  "(string \<Rightarrow> string) \<Rightarrow> ErrorResponse \<Rightarrow> go_error + string" where
  "Marshal_ErrorResponse esc er = Inr (json_ErrorResponse esc er)"

subsection \<open>The state: calls on the writer, the spans and the loggers\<close>

datatype wcall =
  HeaderSet string string
| WriteHeader go_int
| Write string

datatype span_op =
  StartSpan
| AddStringAttribute string string
| SetStatus int32
| End

text \<open>
  \<open>heap\<close> holds the \<^verbatim>\<open>Values\<close> structs by address; \<open>wcalls\<close> the calls made on the
  \<^verbatim>\<open>http.ResponseWriter\<close> of the request; \<open>write_err\<close> what that writer's \<^verbatim>\<open>Write\<close>
  returns as error for the bytes it is given (\<open>None\<close> for nil); \<open>spans\<close> the calls on
  trace spans, each with the name its span was started under; \<open>stdlog\<close> the messages
  given to the standard logger of package \<^verbatim>\<open>log\<close>, \<open>logger\<close> those given to the
  \<^verbatim>\<open>*log.Logger\<close> that \<^verbatim>\<open>Panics\<close> is built with.
\<close>

record world =
  heap :: "addr \<Rightarrow> Values"
  wcalls :: "wcall list"
  write_err :: "string \<Rightarrow> go_error option"
  spans :: "(string \<times> span_op) list"
  stdlog :: "string list"
  logger :: "string list"

text \<open>
  A value of type \<^verbatim>\<open>interface{}\<close> as \<^verbatim>\<open>recover()\<close> returns it, as far as \<^verbatim>\<open>Panics\<close>
  looks at it: nil or not, and its rendering under \<^verbatim>\<open>%v\<close>.
\<close>

datatype go_any = AnyNil | AnyValue string

text \<open>
  How a call ends: it returns; or it panics, with the value that \<^verbatim>\<open>recover()\<close> will
  return and the text that \<^verbatim>\<open>debug.Stack()\<close> gives while the panic unwinds; or the
  process is gone (\<^verbatim>\<open>log.Fatal\<close> prints and calls \<^verbatim>\<open>os.Exit(1)\<close>, and no deferred call
  runs).
\<close>

datatype 'a outcome = Return 'a | Panic go_any string | OsExit

text \<open>\<^verbatim>\<open>defer span.End()\<close>: runs when the function returns or panics, not when the process exits.\<close>

definition defer_End :: "string \<Rightarrow> world \<times> 'a outcome \<Rightarrow> world \<times> 'a outcome" where
  "defer_End span res =
     (case res of
        (s, OsExit) \<Rightarrow> (s, OsExit)
      | (s, out) \<Rightarrow> (s\<lparr>spans := spans s @ [(span, End)]\<rparr>, out))"

section \<open>Package web\<close>

text \<open>
  \<^verbatim>\<open>Respond\<close>. The parameter \<open>Marshal\<close> is \<^verbatim>\<open>json.Marshal\<close> at the type of \<open>data\<close>:
  the bytes, or the error.
\<close>

definition Respond ::
  "('a \<Rightarrow> go_error + string) \<Rightarrow> context \<Rightarrow> 'a \<Rightarrow> go_int \<Rightarrow> world
     \<Rightarrow> world \<times> go_error option outcome" where
  "Respond Marshal ctx data statusCode s =
     (case ctx of
        None \<Rightarrow> (s\<lparr>stdlog := stdlog s @ [''web value missing from context'']\<rparr>, OsExit)
      | Some v \<Rightarrow>
          (let s1 = s\<lparr>heap := (heap s)(v := (heap s v)\<lparr>StatusCode := statusCode\<rparr>)\<rparr>
           in if statusCode = StatusNoContent
              then (s1\<lparr>wcalls := wcalls s1 @ [WriteHeader statusCode]\<rparr>, Return None)
              else (case Marshal data of
                      Inl err \<Rightarrow> (s1, Return (Some err))
                    | Inr res \<Rightarrow>
                        (s1\<lparr>wcalls := wcalls s1 @
                             [HeaderSet ''Content-Type'' ''application/json; charset=utf-8'',
                              WriteHeader statusCode,
                              Write res]\<rparr>,
                         Return (write_err s1 res)))))"

text \<open>\<^verbatim>\<open>zipkinSetErrorOnSpan\<close>, on the span started under the name \<open>span\<close>.\<close>

definition zipkinSetErrorOnSpan ::
  "string \<Rightarrow> string \<Rightarrow> string \<Rightarrow> int32 \<Rightarrow> world \<Rightarrow> world" where
  "zipkinSetErrorOnSpan span errcode errmessage statusCode s =
     (let s1 = s\<lparr>spans := spans s @ [(span, AddStringAttribute ''error'' errcode)]\<rparr>;
          s2 = (if errmessage \<noteq> ''''
                then s1\<lparr>spans := spans s1 @ [(span, AddStringAttribute ''message'' errmessage)]\<rparr>
                else s1)
      in s2\<lparr>spans := spans s2 @ [(span, SetStatus statusCode)]\<rparr>)"

text \<open>
  \<^verbatim>\<open>RespondError\<close>. The type switch takes its first case when the root cause is not nil
  and satisfies \<^verbatim>\<open>PublicError\<close>, the default case otherwise.
\<close>

definition RespondError ::
  "(string \<Rightarrow> string) \<Rightarrow> context \<Rightarrow> go_error option \<Rightarrow> go_int \<Rightarrow> world
     \<Rightarrow> world \<times> go_error option outcome" where
  "RespondError esc ctx err statusCode s =
     (let span = ''web.RespondError'';
          s1 = s\<lparr>spans := spans s @ [(span, StartSpan)]\<rparr>
      in defer_End span
           (case Cause err of
              Some (GoError m (Some (code, detail)) c) \<Rightarrow>
                Respond (Marshal_ErrorResponse esc) ctx
                  \<lparr>Error = code, Detail = detail\<rparr> statusCode
                  (zipkinSetErrorOnSpan span code detail (ucast statusCode) s1)
            | _ \<Rightarrow>
                Respond (Marshal_ErrorResponse esc) ctx
                  \<lparr>Error = StatusText_InternalServerError, Detail = ''''\<rparr>
                  StatusInternalServerError
                  (zipkinSetErrorOnSpan span ''server_error'' ''''
                     (ucast StatusInternalServerError) s1)))"

section \<open>Package middleware\<close>

text \<open>
  A \<^verbatim>\<open>web.Handler\<close>, whose declaration is not among the source files, as \<^verbatim>\<open>Panics\<close>
  builds one and calls one: context, writer and request in, nothing out. The writer is
  the one of the state; \<open>'r\<close> is the request.
\<close>

type_synonym 'r Handler = "context \<Rightarrow> 'r \<Rightarrow> world \<Rightarrow> world \<times> unit outcome"

text \<open>
  What the deferred function sees of the way \<open>after\<close> ended. \<^verbatim>\<open>recover()\<close> gives nil
  when \<open>after\<close> returned, and the panic value when it panicked, which is nil after
  \<^verbatim>\<open>panic(nil)\<close>; in both cases the function that deferred it returns normally
  afterwards. \<^verbatim>\<open>debug.Stack()\<close> gives the text of the stack, and \<^verbatim>\<open>%v\<close> prints the
  value.
\<close>

definition recover :: "'a outcome \<Rightarrow> go_any" where
  "recover out = (case out of Panic rv stack \<Rightarrow> rv | _ \<Rightarrow> AnyNil)"

definition debug_Stack :: "'a outcome \<Rightarrow> string" where
  "debug_Stack out = (case out of Panic rv stack \<Rightarrow> stack | _ \<Rightarrow> '''')"

definition fmt_v :: "go_any \<Rightarrow> string" where
  "fmt_v x = (case x of AnyNil \<Rightarrow> ''<nil>'' | AnyValue txt \<Rightarrow> txt)"

text \<open>
  \<^verbatim>\<open>Panics\<close>: the handler \<open>h\<close> that the middleware builds around \<open>after\<close>. The deferred
  function runs first, then \<^verbatim>\<open>span.End()\<close>; neither runs when the process has exited.
  The variable \<open>rec\<close> is the \<^verbatim>\<open>r\<close> of the deferred function, \<open>r\<close> the request.
\<close>

definition Panics :: "'r Handler \<Rightarrow> 'r Handler" where
  "Panics after ctx r s =
     (let span = ''internal.middleware.Panics'';
          s1 = s\<lparr>spans := spans s @ [(span, StartSpan)]\<rparr>
      in case ctx of
           None \<Rightarrow> (s1\<lparr>logger := logger s1 @ [''web value missing from context'']\<rparr>, OsExit)
         | Some v \<Rightarrow>
             defer_End span
               (case after ctx r s1 of
                  (s2, OsExit) \<Rightarrow> (s2, OsExit)
                | (s2, out) \<Rightarrow>
                    (let rec = recover out
                     in if rec \<noteq> AnyNil
                        then (s2\<lparr>logger := logger s2 @
                                [''panic: '' @ fmt_v rec,
                                 TraceID (heap s2 v) @ '' :'' @ [CHR 0x0A] @ debug_Stack out]\<rparr>,
                              Return ())
                        else (s2, Return ()))))"

section \<open>Sample inputs\<close>

text \<open>
  A state with nothing written yet, a writer that accepts every write, and the same
  \<^verbatim>\<open>Values\<close> struct at every address; and the same state with a writer whose
  \<^verbatim>\<open>Write\<close> fails.
\<close>

definition world0 :: world where
  "world0 =
     \<lparr>heap = (\<lambda>_. \<lparr>StatusCode = 0, TraceID = ''trace-1''\<rparr>), wcalls = [],
      write_err = (\<lambda>_. None), spans = [], stdlog = [], logger = []\<rparr>"

definition broken_pipe :: go_error where
  "broken_pipe = GoError ''write: broken pipe'' None None"

definition world_broken :: world where
  "world_broken = world0\<lparr>write_err := (\<lambda>_. Some broken_pipe)\<rparr>"

text \<open>
  The strings of the sample runs need no escaping, so the library's part of the string
  encoding is never asked; this stands in for it.
\<close>

definition sample_escape :: "string \<Rightarrow> string" where
  "sample_escape s = s"

text \<open>
  A public error, the same error wrapped as \<^verbatim>\<open>errors.Wrap\<close> does, a public error
  with an empty detail, an error with no capability, and a public error that is also a
  \<^verbatim>\<open>causer\<close> with an opaque cause.
\<close>

definition not_found :: go_error where
  "not_found = GoError ''callback not found'' (Some (''not_found'', ''no such callback'')) None"

definition wrapped_not_found :: go_error where
  "wrapped_not_found = GoError ''lookup: callback not found'' None (Some (Some not_found))"

definition teapot :: go_error where
  "teapot = GoError ''teapot'' (Some (''teapot'', '''')) None"

definition opaque_err :: go_error where
  "opaque_err = GoError ''sql: connection refused by 10.0.0.7'' None None"

definition public_over_opaque :: go_error where
  "public_over_opaque = GoError ''denied'' (Some (''denied'', ''not yours'')) (Some (Some opaque_err))"

text \<open>
  \<^verbatim>\<open>json.Marshal\<close> at a channel: the library refuses channels, functions and complex
  numbers with an \<^verbatim>\<open>UnsupportedTypeError\<close>.
\<close>

definition unsupported_type :: go_error where
  "unsupported_type = GoError ''json: unsupported type: chan int'' None None"

definition Marshal_chan :: "unit \<Rightarrow> go_error + string" where
  "Marshal_chan c = Inl unsupported_type"

text \<open>
  Two handlers: one that writes a status line and then panics with a value that prints
  as \<^verbatim>\<open>boom\<close>, one that calls \<^verbatim>\<open>panic(nil)\<close> where \<^verbatim>\<open>recover()\<close> gives nil for it
  (Go before 1.21, and later for a module that declares an earlier version).
\<close>

definition boom_handler :: "unit Handler" where
  "boom_handler ctx r s =
     (s\<lparr>wcalls := wcalls s @ [WriteHeader 200]\<rparr>,
      Panic (AnyValue ''boom'') ''goroutine 7 [running]:'')"

definition nil_panic_handler :: "unit Handler" where
  "nil_panic_handler ctx r s = (s, Panic AnyNil ''goroutine 7 [running]:'')"

section \<open>Facts about the building blocks\<close>

lemma json_string_safe:
  "list_all htmlSafe s \<Longrightarrow> json_string esc s = [CHR 0x22] @ s @ [CHR 0x22]"
  by (simp add: json_string_def)

lemma defer_End_Return:
  "defer_End span (s, Return x) = (s\<lparr>spans := spans s @ [(span, End)]\<rparr>, Return x)"
  by (simp add: defer_End_def)

lemma Respond_missing:
  "Respond Marshal None data statusCode s =
     (s\<lparr>stdlog := stdlog s @ [''web value missing from context'']\<rparr>, OsExit)"
  by (simp add: Respond_def)

lemma Respond_NoContent:
  "Respond Marshal (Some v) data StatusNoContent s =
     (s\<lparr>heap := (heap s)(v := (heap s v)\<lparr>StatusCode := StatusNoContent\<rparr>),
        wcalls := wcalls s @ [WriteHeader StatusNoContent]\<rparr>, Return None)"
  by (simp add: Respond_def)

lemma Respond_serializes:
  "statusCode \<noteq> StatusNoContent \<Longrightarrow>
   Respond Marshal (Some v) data statusCode s =
     (case Marshal data of
        Inl err \<Rightarrow>
          (s\<lparr>heap := (heap s)(v := (heap s v)\<lparr>StatusCode := statusCode\<rparr>)\<rparr>, Return (Some err))
      | Inr res \<Rightarrow>
          (s\<lparr>heap := (heap s)(v := (heap s v)\<lparr>StatusCode := statusCode\<rparr>),
             wcalls := wcalls s @
               [HeaderSet ''Content-Type'' ''application/json; charset=utf-8'',
                WriteHeader statusCode, Write res]\<rparr>,
           Return (write_err s res)))"
  by (simp add: Respond_def split: sum.splits)

lemma zipkin_spans:
  "zipkinSetErrorOnSpan span errcode errmessage statusCode s =
     s\<lparr>spans := spans s @ [(span, AddStringAttribute ''error'' errcode)] @
         (if errmessage = '''' then [] else [(span, AddStringAttribute ''message'' errmessage)]) @
         [(span, SetStatus statusCode)]\<rparr>"
  by (simp add: zipkinSetErrorOnSpan_def)

text \<open>The root cause is never a \<^verbatim>\<open>causer\<close>: that is where the loop of \<^verbatim>\<open>errors.Cause\<close> stops.\<close>

lemma Cause_root_not_causer: "Cause err = Some e \<Longrightarrow> causer e = None"
  by (induction err rule: Cause.induct) auto

lemma RespondError_PublicError:
  assumes "Cause err = Some e" and "PublicError e = Some (C, D)"
  shows "RespondError esc ctx err statusCode s =
     defer_End ''web.RespondError''
       (Respond (Marshal_ErrorResponse esc) ctx \<lparr>Error = C, Detail = D\<rparr> statusCode
          (zipkinSetErrorOnSpan ''web.RespondError'' C D (ucast statusCode)
             (s\<lparr>spans := spans s @ [(''web.RespondError'', StartSpan)]\<rparr>)))"
  using assms by (cases e) (simp add: RespondError_def Let_def)

lemma RespondError_default:
  assumes "\<forall>e. Cause err = Some e \<longrightarrow> PublicError e = None"
  shows "RespondError esc ctx err statusCode s =
     defer_End ''web.RespondError''
       (Respond (Marshal_ErrorResponse esc) ctx
          \<lparr>Error = StatusText_InternalServerError, Detail = ''''\<rparr> StatusInternalServerError
          (zipkinSetErrorOnSpan ''web.RespondError'' ''server_error'' ''''
             (ucast StatusInternalServerError)
             (s\<lparr>spans := spans s @ [(''web.RespondError'', StartSpan)]\<rparr>)))"
  using assms by (auto simp add: RespondError_def Let_def split: option.splits go_error.splits)

lemma RespondError_public_body:
  assumes "Cause err = Some e" and "PublicError e = Some (C, D)"
    and "statusCode \<noteq> StatusNoContent"
  shows "RespondError esc (Some v) err statusCode s =
     (s\<lparr>heap := (heap s)(v := (heap s v)\<lparr>StatusCode := statusCode\<rparr>),
        spans := spans s @
          [(''web.RespondError'', StartSpan),
           (''web.RespondError'', AddStringAttribute ''error'' C)] @
          (if D = '''' then [] else [(''web.RespondError'', AddStringAttribute ''message'' D)]) @
          [(''web.RespondError'', SetStatus (ucast statusCode)),
           (''web.RespondError'', End)],
        wcalls := wcalls s @
          [HeaderSet ''Content-Type'' ''application/json; charset=utf-8'',
           WriteHeader statusCode,
           Write (json_ErrorResponse esc \<lparr>Error = C, Detail = D\<rparr>)]\<rparr>,
      Return (write_err s (json_ErrorResponse esc \<lparr>Error = C, Detail = D\<rparr>)))"
  by (simp add: RespondError_PublicError [OF assms(1,2)]
      Respond_serializes [OF assms(3)] Marshal_ErrorResponse_def zipkin_spans defer_End_Return)

text \<open>The body of the default branch, written out.\<close>

lemma json_ErrorResponse_500:
  \<open>json_ErrorResponse esc \<lparr>Error = StatusText_InternalServerError, Detail = ''''\<rparr> =
     ''{"error":"Internal Server Error","message":""}''\<close>
  by (simp add: json_ErrorResponse_def json_string_def StatusText_InternalServerError_def
      htmlSafe_def)

lemma RespondError_default_body:
  assumes "\<forall>e. Cause err = Some e \<longrightarrow> PublicError e = None"
  shows \<open>RespondError esc (Some v) err statusCode s =
     (s\<lparr>heap := (heap s)(v := (heap s v)\<lparr>StatusCode := 500\<rparr>),
        spans := spans s @
          [(''web.RespondError'', StartSpan),
           (''web.RespondError'', AddStringAttribute ''error'' ''server_error''),
           (''web.RespondError'', SetStatus 500),
           (''web.RespondError'', End)],
        wcalls := wcalls s @
          [HeaderSet ''Content-Type'' ''application/json; charset=utf-8'',
           WriteHeader 500,
           Write ''{"error":"Internal Server Error","message":""}'']\<rparr>,
      Return (write_err s ''{"error":"Internal Server Error","message":""}''))\<close>
proof -
  have ne: "(500::go_int) \<noteq> StatusNoContent"
    by (simp add: StatusNoContent_def)
  have ser: "Respond (Marshal_ErrorResponse esc) (Some v)
        \<lparr>Error = StatusText_InternalServerError, Detail = ''''\<rparr> StatusInternalServerError t =
      (t\<lparr>heap := (heap t)(v := (heap t v)\<lparr>StatusCode := 500\<rparr>),
         wcalls := wcalls t @
           [HeaderSet ''Content-Type'' ''application/json; charset=utf-8'',
            WriteHeader 500,
            Write (json_ErrorResponse esc
              \<lparr>Error = StatusText_InternalServerError, Detail = ''''\<rparr>)]\<rparr>,
       Return (write_err t (json_ErrorResponse esc
              \<lparr>Error = StatusText_InternalServerError, Detail = ''''\<rparr>)))" for t
    unfolding StatusInternalServerError_def
    by (simp add: Respond_serializes [OF ne] Marshal_ErrorResponse_def)
  show ?thesis
    unfolding RespondError_default [OF assms] ser
    by (simp add: json_ErrorResponse_500 zipkin_spans defer_End_Return
        StatusInternalServerError_def)
qed

section \<open>The error translator on public errors\<close>

text \<open>
  Claim C1, as the spec states it: for every error whose root cause has code \<open>C\<close> and
  detail \<open>D\<close> and every status \<open>S\<close>, the emitted body is the envelope of \<open>C\<close> and
  \<open>D\<close>. At status 204 this fails: \<^verbatim>\<open>Respond\<close> takes its early return for "no
  content", and the only call on the writer is \<^verbatim>\<open>WriteHeader(204)\<close>. The run below is
  \<^verbatim>\<open>RespondError\<close> on a wrapped public error with status 204, in a context that carries
  the \<^verbatim>\<open>Values\<close> struct: no \<^verbatim>\<open>Write\<close> and no header.
\<close>

theorem RespondError_public_204_counterexample:
  \<open>Cause (Some wrapped_not_found) = Some not_found \<and>
   PublicError not_found = Some (''not_found'', ''no such callback'') \<and>
   RespondError sample_escape (Some 0) (Some wrapped_not_found) 204 world0 =
     (world0\<lparr>heap := (heap world0)(0 := (heap world0 0)\<lparr>StatusCode := 204\<rparr>),
        spans :=
          [(''web.RespondError'', StartSpan),
           (''web.RespondError'', AddStringAttribute ''error'' ''not_found''),
           (''web.RespondError'', AddStringAttribute ''message'' ''no such callback''),
           (''web.RespondError'', SetStatus 204),
           (''web.RespondError'', End)],
        wcalls := [WriteHeader 204]\<rparr>,
      Return None) \<and>
   Write ''{"error":"not_found","message":"no such callback"}'' \<notin>
     set (wcalls (fst (RespondError sample_escape (Some 0) (Some wrapped_not_found) 204 world0)))\<close>
  by (simp add: RespondError_def Respond_def zipkinSetErrorOnSpan_def defer_End_def Let_def
      wrapped_not_found_def not_found_def world0_def StatusNoContent_def)

text \<open>
  Claim C1, amended. Let the root cause of the error satisfy \<^verbatim>\<open>PublicError\<close> with code
  \<open>C\<close> and detail \<open>D\<close>. Then, for every status \<open>S\<close>, \<^verbatim>\<open>RespondError\<close> is the call of
  \<^verbatim>\<open>Respond\<close> with status \<open>S\<close> and the envelope of \<open>C\<close> and \<open>D\<close>, after the span is
  tagged and before it is ended. When the context carries the \<^verbatim>\<open>Values\<close> struct and
  \<open>S\<close> is not 204, the calls on the writer are the content type, the status line \<open>S\<close>
  and one write of the JSON object with the field \<^verbatim>\<open>error\<close> holding \<open>C\<close> and the
  field \<^verbatim>\<open>message\<close> holding \<open>D\<close>, both as JSON strings. When \<open>S\<close> is 204, the only
  call is the status line. When \<open>C\<close> and \<open>D\<close> need no escaping, the JSON object is
  \<open>C\<close> and \<open>D\<close> between double quotes, letter for letter.
\<close>

theorem RespondError_public_error:
  assumes "Cause err = Some e" and "PublicError e = Some (C, D)"
  shows \<open>RespondError esc ctx err statusCode s =
       defer_End ''web.RespondError''
         (Respond (Marshal_ErrorResponse esc) ctx \<lparr>Error = C, Detail = D\<rparr> statusCode
            (zipkinSetErrorOnSpan ''web.RespondError'' C D (ucast statusCode)
               (s\<lparr>spans := spans s @ [(''web.RespondError'', StartSpan)]\<rparr>))) \<and>
     (statusCode \<noteq> StatusNoContent \<longrightarrow>
        wcalls (fst (RespondError esc (Some v) err statusCode s)) =
          wcalls s @
            [HeaderSet ''Content-Type'' ''application/json; charset=utf-8'',
             WriteHeader statusCode,
             Write (''{"error":'' @ json_string esc C @
                    '',"message":'' @ json_string esc D @ ''}'')]) \<and>
     (statusCode = StatusNoContent \<longrightarrow>
        wcalls (fst (RespondError esc (Some v) err statusCode s)) =
          wcalls s @ [WriteHeader statusCode]) \<and>
     (list_all htmlSafe C \<and> list_all htmlSafe D \<longrightarrow>
        ''{"error":'' @ json_string esc C @ '',"message":'' @ json_string esc D @ ''}'' =
        ''{"error":"'' @ C @ ''","message":"'' @ D @ ''"}'')\<close>
proof (intro conjI impI)
  show "RespondError esc ctx err statusCode s =
       defer_End ''web.RespondError''
         (Respond (Marshal_ErrorResponse esc) ctx \<lparr>Error = C, Detail = D\<rparr> statusCode
            (zipkinSetErrorOnSpan ''web.RespondError'' C D (ucast statusCode)
               (s\<lparr>spans := spans s @ [(''web.RespondError'', StartSpan)]\<rparr>)))"
    by (rule RespondError_PublicError [OF assms])
next
  assume "statusCode \<noteq> StatusNoContent"
  from RespondError_public_body [OF assms this]
  show \<open>wcalls (fst (RespondError esc (Some v) err statusCode s)) =
          wcalls s @
            [HeaderSet ''Content-Type'' ''application/json; charset=utf-8'',
             WriteHeader statusCode,
             Write (''{"error":'' @ json_string esc C @
                    '',"message":'' @ json_string esc D @ ''}'')]\<close>
    by (simp add: json_ErrorResponse_def)
next
  assume "statusCode = StatusNoContent"
  then show "wcalls (fst (RespondError esc (Some v) err statusCode s)) =
          wcalls s @ [WriteHeader statusCode]"
    by (simp add: RespondError_PublicError [OF assms] Respond_NoContent zipkin_spans
        defer_End_Return)
next
  assume "list_all htmlSafe C \<and> list_all htmlSafe D"
  then show \<open>''{"error":'' @ json_string esc C @ '',"message":'' @ json_string esc D @ ''}'' =
        ''{"error":"'' @ C @ ''","message":"'' @ D @ ''"}''\<close>
    by (simp add: json_string_safe)
qed

text \<open>The amended claim on the wrapped public error, with status 404.\<close>

theorem RespondError_public_error_witness:
  \<open>Cause (Some wrapped_not_found) = Some not_found \<and>
   PublicError not_found = Some (''not_found'', ''no such callback'') \<and>
   (404::go_int) \<noteq> StatusNoContent \<and>
   list_all htmlSafe ''not_found'' \<and> list_all htmlSafe ''no such callback'' \<and>
   wcalls (fst (RespondError sample_escape (Some 0) (Some wrapped_not_found) 404 world0)) =
     [HeaderSet ''Content-Type'' ''application/json; charset=utf-8'',
      WriteHeader 404,
      Write ''{"error":"not_found","message":"no such callback"}'']\<close>
proof -
  have c: "Cause (Some wrapped_not_found) = Some not_found"
    by (simp add: wrapped_not_found_def not_found_def)
  have p: "PublicError not_found = Some (''not_found'', ''no such callback'')"
    by (simp add: not_found_def)
  have n: "(404::go_int) \<noteq> StatusNoContent"
    by (simp add: StatusNoContent_def)
  have h: "list_all htmlSafe ''not_found'' \<and> list_all htmlSafe ''no such callback''"
    by (simp add: htmlSafe_def)
  note t = RespondError_public_error [OF c p, of sample_escape "Some 0" 404 world0 0]
  note body = t [THEN conjunct2, THEN conjunct1, rule_format, OF n]
  note lit = t [THEN conjunct2, THEN conjunct2, THEN conjunct2, rule_format, OF h]
  from body
  have \<open>wcalls (fst (RespondError sample_escape (Some 0) (Some wrapped_not_found) 404 world0)) =
     [HeaderSet ''Content-Type'' ''application/json; charset=utf-8'',
      WriteHeader 404,
      Write (''{"error":"'' @ ''not_found'' @ ''","message":"'' @ ''no such callback'' @ ''"}'')]\<close>
    unfolding lit by (simp add: world0_def)
  with c p n h show ?thesis by simp
qed

section \<open>The error translator on every other error\<close>

text \<open>
  Claim C2. Let the root cause of the error not satisfy \<^verbatim>\<open>PublicError\<close> (a nil error
  and a nil cause included). Then, for every status given by the caller,
  \<^verbatim>\<open>RespondError\<close> is the call of \<^verbatim>\<open>Respond\<close> with status 500 and the envelope whose
  \<^verbatim>\<open>error\<close> is the text "Internal Server Error" and whose \<^verbatim>\<open>message\<close> is empty, the
  span tagged \<^verbatim>\<open>server_error\<close> with 500. When the context carries the \<^verbatim>\<open>Values\<close>
  struct, the writer receives the content type, the status line 500 and the one body
  shown. The result is the same state and the same return value for every such error and
  every status of the caller: nothing of either reaches the response, the span or the
  \<^verbatim>\<open>Values\<close> struct.
\<close>

theorem RespondError_opaque_error:
  assumes "\<forall>e. Cause err = Some e \<longrightarrow> PublicError e = None"
  shows \<open>RespondError esc ctx err statusCode s =
       defer_End ''web.RespondError''
         (Respond (Marshal_ErrorResponse esc) ctx
            \<lparr>Error = ''Internal Server Error'', Detail = ''''\<rparr> 500
            (zipkinSetErrorOnSpan ''web.RespondError'' ''server_error'' '''' 500
               (s\<lparr>spans := spans s @ [(''web.RespondError'', StartSpan)]\<rparr>))) \<and>
     RespondError esc (Some v) err statusCode s =
       (s\<lparr>heap := (heap s)(v := (heap s v)\<lparr>StatusCode := 500\<rparr>),
          spans := spans s @
            [(''web.RespondError'', StartSpan),
             (''web.RespondError'', AddStringAttribute ''error'' ''server_error''),
             (''web.RespondError'', SetStatus 500),
             (''web.RespondError'', End)],
          wcalls := wcalls s @
            [HeaderSet ''Content-Type'' ''application/json; charset=utf-8'',
             WriteHeader 500,
             Write ''{"error":"Internal Server Error","message":""}'']\<rparr>,
        Return (write_err s ''{"error":"Internal Server Error","message":""}'')) \<and>
     (\<forall>err' statusCode'.
        (\<forall>e. Cause err' = Some e \<longrightarrow> PublicError e = None) \<longrightarrow>
        RespondError esc ctx err' statusCode' s = RespondError esc ctx err statusCode s)\<close>
proof (intro conjI allI impI)
  show "RespondError esc ctx err statusCode s =
       defer_End ''web.RespondError''
         (Respond (Marshal_ErrorResponse esc) ctx
            \<lparr>Error = ''Internal Server Error'', Detail = ''''\<rparr> 500
            (zipkinSetErrorOnSpan ''web.RespondError'' ''server_error'' '''' 500
               (s\<lparr>spans := spans s @ [(''web.RespondError'', StartSpan)]\<rparr>)))"
    using RespondError_default [OF assms, of esc ctx statusCode s]
    by (simp add: StatusInternalServerError_def StatusText_InternalServerError_def)
next
  show \<open>RespondError esc (Some v) err statusCode s =
       (s\<lparr>heap := (heap s)(v := (heap s v)\<lparr>StatusCode := 500\<rparr>),
          spans := spans s @
            [(''web.RespondError'', StartSpan),
             (''web.RespondError'', AddStringAttribute ''error'' ''server_error''),
             (''web.RespondError'', SetStatus 500),
             (''web.RespondError'', End)],
          wcalls := wcalls s @
            [HeaderSet ''Content-Type'' ''application/json; charset=utf-8'',
             WriteHeader 500,
             Write ''{"error":"Internal Server Error","message":""}'']\<rparr>,
        Return (write_err s ''{"error":"Internal Server Error","message":""}''))\<close>
    by (rule RespondError_default_body [OF assms])
next
  fix err' statusCode'
  assume "\<forall>e. Cause err' = Some e \<longrightarrow> PublicError e = None"
  then show "RespondError esc ctx err' statusCode' s = RespondError esc ctx err statusCode s"
    by (simp only: RespondError_default [OF assms] RespondError_default)
qed

text \<open>
  The claim on an error that satisfies \<^verbatim>\<open>PublicError\<close> itself but wraps an opaque
  cause, with status 403: the root cause decides, and the response is that of a nil error.
\<close>

theorem RespondError_opaque_error_witness:
  \<open>Cause (Some public_over_opaque) = Some opaque_err \<and> PublicError opaque_err = None \<and>
   RespondError sample_escape (Some 0) (Some public_over_opaque) 403 world0 =
     (world0\<lparr>heap := (heap world0)(0 := (heap world0 0)\<lparr>StatusCode := 500\<rparr>),
        spans :=
          [(''web.RespondError'', StartSpan),
           (''web.RespondError'', AddStringAttribute ''error'' ''server_error''),
           (''web.RespondError'', SetStatus 500),
           (''web.RespondError'', End)],
        wcalls :=
          [HeaderSet ''Content-Type'' ''application/json; charset=utf-8'',
           WriteHeader 500,
           Write ''{"error":"Internal Server Error","message":""}'']\<rparr>,
      Return None) \<and>
   RespondError sample_escape (Some 0) None 200 world0 =
     RespondError sample_escape (Some 0) (Some public_over_opaque) 403 world0\<close>
proof -
  have c: "Cause (Some public_over_opaque) = Some opaque_err"
    by (simp add: public_over_opaque_def opaque_err_def)
  have p: "PublicError opaque_err = None"
    by (simp add: opaque_err_def)
  have h: "\<forall>e. Cause (Some public_over_opaque) = Some e \<longrightarrow> PublicError e = None"
    using c p by simp
  have h0: "\<forall>e. Cause None = Some e \<longrightarrow> PublicError e = None"
    by simp
  note t = RespondError_opaque_error [OF h, of sample_escape "Some 0" 403 world0 0]
  note body = t [THEN conjunct2, THEN conjunct1]
  note same = t [THEN conjunct2, THEN conjunct2, THEN spec [of _ None], THEN spec [of _ 200],
      THEN mp, OF h0]
  from body
  have \<open>RespondError sample_escape (Some 0) (Some public_over_opaque) 403 world0 =
     (world0\<lparr>heap := (heap world0)(0 := (heap world0 0)\<lparr>StatusCode := 500\<rparr>),
        spans :=
          [(''web.RespondError'', StartSpan),
           (''web.RespondError'', AddStringAttribute ''error'' ''server_error''),
           (''web.RespondError'', SetStatus 500),
           (''web.RespondError'', End)],
        wcalls :=
          [HeaderSet ''Content-Type'' ''application/json; charset=utf-8'',
           WriteHeader 500,
           Write ''{"error":"Internal Server Error","message":""}'']\<rparr>,
      Return None)\<close>
    by (simp add: world0_def)
  with c p same show ?thesis by simp
qed

section \<open>The responder\<close>

text \<open>
  Claim C3, as the spec states it, promises one body for any value and any status other
  than 204. A value that \<^verbatim>\<open>json.Marshal\<close> refuses has no serialization, and
  \<^verbatim>\<open>Respond\<close> returns the error of the serializer before it touches the writer. The
  run below is \<^verbatim>\<open>Respond\<close> on a channel with status 201, in a context that carries the
  \<^verbatim>\<open>Values\<close> struct: the error comes back and the writer has received no call.
\<close>

theorem Respond_unserializable_counterexample:
  "(201::go_int) \<noteq> StatusNoContent \<and> Marshal_chan () = Inl unsupported_type \<and>
   Respond Marshal_chan (Some 0) () 201 world0 =
     (world0\<lparr>heap := (heap world0)(0 := (heap world0 0)\<lparr>StatusCode := 201\<rparr>)\<rparr>,
      Return (Some unsupported_type)) \<and>
   wcalls (fst (Respond Marshal_chan (Some 0) () 201 world0)) = []"
  by (simp add: Respond_def Marshal_chan_def StatusNoContent_def world0_def)

text \<open>
  Claim C3, amended. When the context carries the \<^verbatim>\<open>Values\<close> struct, the status is not
  204 and the serialization of the value succeeds with the bytes \<open>res\<close>, \<^verbatim>\<open>Respond\<close>
  makes three calls on the writer and no other: it sets the header \<^verbatim>\<open>Content-Type\<close> to
  \<^verbatim>\<open>application/json; charset=utf-8\<close>, writes the status line with the given status, and
  writes \<open>res\<close> once. It returns what that write returns.
\<close>

theorem Respond_writes_json:
  assumes "statusCode \<noteq> StatusNoContent" and "Marshal data = Inr res"
  shows "Respond Marshal (Some v) data statusCode s =
     (s\<lparr>heap := (heap s)(v := (heap s v)\<lparr>StatusCode := statusCode\<rparr>),
        wcalls := wcalls s @
          [HeaderSet ''Content-Type'' ''application/json; charset=utf-8'',
           WriteHeader statusCode,
           Write res]\<rparr>,
      Return (write_err s res))"
  using assms(2) by (simp add: Respond_serializes [OF assms(1)])

text \<open>The amended claim on an envelope, with status 201.\<close>

theorem Respond_writes_json_witness:
  \<open>(201::go_int) \<noteq> StatusNoContent \<and>
   Marshal_ErrorResponse sample_escape \<lparr>Error = ''queued'', Detail = ''job 7''\<rparr> =
     Inr ''{"error":"queued","message":"job 7"}'' \<and>
   Respond (Marshal_ErrorResponse sample_escape) (Some 0)
       \<lparr>Error = ''queued'', Detail = ''job 7''\<rparr> 201 world0 =
     (world0\<lparr>heap := (heap world0)(0 := (heap world0 0)\<lparr>StatusCode := 201\<rparr>),
        wcalls :=
          [HeaderSet ''Content-Type'' ''application/json; charset=utf-8'',
           WriteHeader 201,
           Write ''{"error":"queued","message":"job 7"}'']\<rparr>,
      Return None)\<close>
proof -
  have n: "(201::go_int) \<noteq> StatusNoContent"
    by (simp add: StatusNoContent_def)
  have m: \<open>Marshal_ErrorResponse sample_escape \<lparr>Error = ''queued'', Detail = ''job 7''\<rparr> =
     Inr ''{"error":"queued","message":"job 7"}''\<close>
    by (simp add: Marshal_ErrorResponse_def json_ErrorResponse_def json_string_def htmlSafe_def)
  from Respond_writes_json [where Marshal = "Marshal_ErrorResponse sample_escape"
      and data = "\<lparr>Error = ''queued'', Detail = ''job 7''\<rparr>" and v = 0 and s = world0, OF n m] n m
  show ?thesis
    by (simp add: world0_def)
qed

text \<open>
  Claim C4. With status 204 and the \<^verbatim>\<open>Values\<close> struct in the context, \<^verbatim>\<open>Respond\<close>
  records the status, writes the status line and returns nil. The one call on the writer
  is \<^verbatim>\<open>WriteHeader(204)\<close>: no header is set and nothing is written as body. The right
  side mentions neither the value nor its serializer: the value is not serialized, and a
  value that cannot be serialized gives the same result.
\<close>

theorem Respond_no_content:
  "Respond Marshal (Some v) data StatusNoContent s =
     (s\<lparr>heap := (heap s)(v := (heap s v)\<lparr>StatusCode := 204\<rparr>),
        wcalls := wcalls s @ [WriteHeader 204]\<rparr>,
      Return None)"
  by (simp add: Respond_NoContent) (simp add: StatusNoContent_def)

text \<open>
  Claim C5. \<^verbatim>\<open>Respond\<close> returns the error \<open>e\<close> exactly when it serializes the value
  (the \<^verbatim>\<open>Values\<close> struct is in the context and the status is not 204, the two paths
  on which \<^verbatim>\<open>json.Marshal\<close> is reached) and either the serialization fails with \<open>e\<close>
  or the write of the serialized bytes fails with \<open>e\<close>. When the serialization fails,
  the only change of the state is the recorded status: the calls on the writer are those
  made before, so no header, no status line and no body.
\<close>

theorem Respond_error_iff:
  "(snd (Respond Marshal ctx data statusCode s) = Return (Some e) \<longleftrightarrow>
      ctx \<noteq> None \<and> statusCode \<noteq> StatusNoContent \<and>
      (Marshal data = Inl e \<or> (\<exists>res. Marshal data = Inr res \<and> write_err s res = Some e))) \<and>
   (statusCode \<noteq> StatusNoContent \<and> Marshal data = Inl e \<longrightarrow>
      Respond Marshal (Some v) data statusCode s =
        (s\<lparr>heap := (heap s)(v := (heap s v)\<lparr>StatusCode := statusCode\<rparr>)\<rparr>, Return (Some e)) \<and>
      wcalls (fst (Respond Marshal (Some v) data statusCode s)) = wcalls s)"
proof (intro conjI impI)
  show "snd (Respond Marshal ctx data statusCode s) = Return (Some e) \<longleftrightarrow>
      ctx \<noteq> None \<and> statusCode \<noteq> StatusNoContent \<and>
      (Marshal data = Inl e \<or> (\<exists>res. Marshal data = Inr res \<and> write_err s res = Some e))"
  proof (cases ctx)
    case None
    then show ?thesis by (simp add: Respond_missing)
  next
    case (Some p)
    show ?thesis
    proof (cases "statusCode = StatusNoContent")
      case True
      with Some show ?thesis by (simp add: Respond_NoContent)
    next
      case False
      with Some show ?thesis
        by (cases "Marshal data") (simp_all add: Respond_serializes)
    qed
  qed
next
  assume a: "statusCode \<noteq> StatusNoContent \<and> Marshal data = Inl e"
  then show "Respond Marshal (Some v) data statusCode s =
        (s\<lparr>heap := (heap s)(v := (heap s v)\<lparr>StatusCode := statusCode\<rparr>)\<rparr>, Return (Some e))"
    by (simp add: Respond_serializes)
  from a show "wcalls (fst (Respond Marshal (Some v) data statusCode s)) = wcalls s"
    by (simp add: Respond_serializes)
qed

text \<open>
  The claim on a channel, which \<^verbatim>\<open>json.Marshal\<close> refuses, on an envelope sent to a
  writer whose \<^verbatim>\<open>Write\<close> fails, and on the same envelope sent to a writer that
  accepts it.
\<close>

theorem Respond_error_iff_witness:
  "(200::go_int) \<noteq> StatusNoContent \<and> Marshal_chan () = Inl unsupported_type \<and>
   Respond Marshal_chan (Some 0) () 200 world0 =
     (world0\<lparr>heap := (heap world0)(0 := (heap world0 0)\<lparr>StatusCode := 200\<rparr>)\<rparr>,
      Return (Some unsupported_type)) \<and>
   wcalls (fst (Respond Marshal_chan (Some 0) () 200 world0)) = [] \<and>
   write_err world_broken (json_ErrorResponse sample_escape \<lparr>Error = ''queued'', Detail = ''''\<rparr>) =
     Some broken_pipe \<and>
   snd (Respond (Marshal_ErrorResponse sample_escape) (Some 0)
         \<lparr>Error = ''queued'', Detail = ''''\<rparr> 200 world_broken) = Return (Some broken_pipe) \<and>
   snd (Respond (Marshal_ErrorResponse sample_escape) (Some 0)
         \<lparr>Error = ''queued'', Detail = ''''\<rparr> 200 world0) = Return None"
proof -
  have n: "(200::go_int) \<noteq> StatusNoContent"
    by (simp add: StatusNoContent_def)
  have m: "Marshal_chan () = Inl unsupported_type"
    by (simp add: Marshal_chan_def)
  have w: "write_err world_broken
      (json_ErrorResponse sample_escape \<lparr>Error = ''queued'', Detail = ''''\<rparr>) = Some broken_pipe"
    by (simp add: world_broken_def)
  have w0: "write_err world0 x = None" for x
    by (simp add: world0_def)
  note t1 = Respond_error_iff [of Marshal_chan _ "()" 200 world0 unsupported_type 0]
  note fails = t1 [THEN conjunct2, rule_format, OF conjI [OF n m]]
  note t2 = Respond_error_iff [of "Marshal_ErrorResponse sample_escape" "Some 0"
      "\<lparr>Error = ''queued'', Detail = ''''\<rparr>" 200 world_broken broken_pipe]
  from t2 [THEN conjunct1] n w
  have broken: "snd (Respond (Marshal_ErrorResponse sample_escape) (Some 0)
         \<lparr>Error = ''queued'', Detail = ''''\<rparr> 200 world_broken) = Return (Some broken_pipe)"
    by (simp add: Marshal_ErrorResponse_def)
  have fine: "snd (Respond (Marshal_ErrorResponse sample_escape) (Some 0)
         \<lparr>Error = ''queued'', Detail = ''''\<rparr> 200 world0) = Return None"
    by (simp add: Respond_serializes [OF n] Marshal_ErrorResponse_def w0)
  from fails n m w broken fine show ?thesis
    by (simp add: world0_def)
qed

section \<open>The panic guard\<close>

text \<open>
  Claim C6, as the spec states it, promises a log line with the panic value for every
  panic value. The deferred function logs under the guard \<^verbatim>\<open>r != nil\<close>, and
  \<^verbatim>\<open>recover()\<close> gives nil when the handler called \<^verbatim>\<open>panic(nil)\<close>: the rule of the
  language before Go 1.21, and still the rule for a module that declares an earlier
  version. The run below is \<^verbatim>\<open>Panics\<close> around such a handler, in a context that carries
  the \<^verbatim>\<open>Values\<close> struct: the panic is stopped and the middleware returns, and the logger
  has received nothing.
\<close>

theorem Panics_nil_panic_counterexample:
  "nil_panic_handler (Some 0) ()
       (world0\<lparr>spans := spans world0 @ [(''internal.middleware.Panics'', StartSpan)]\<rparr>) =
     (world0\<lparr>spans := spans world0 @ [(''internal.middleware.Panics'', StartSpan)]\<rparr>,
      Panic AnyNil ''goroutine 7 [running]:'') \<and>
   Panics nil_panic_handler (Some 0) () world0 =
     (world0\<lparr>spans :=
        [(''internal.middleware.Panics'', StartSpan), (''internal.middleware.Panics'', End)]\<rparr>,
      Return ()) \<and>
   logger (fst (Panics nil_panic_handler (Some 0) () world0)) = []"
  by (simp add: Panics_def nil_panic_handler_def defer_End_def recover_def Let_def world0_def)

text \<open>
  Claim C6, amended. Let the handler panic, called in a context that carries the
  \<^verbatim>\<open>Values\<close> struct, after the middleware has started its span. Then \<^verbatim>\<open>Panics\<close>
  returns to its caller, whatever the panic value is, and makes no call on the writer: the
  calls are those the handler left. When the panic value is not nil and prints as \<open>V\<close>,
  the logger receives two messages, \<^verbatim>\<open>panic: V\<close> and then the trace identifier, as the
  \<^verbatim>\<open>Values\<close> struct holds it at that moment, followed by a blank, a colon, a newline and
  the stack trace; the span is ended after that.
\<close>

theorem Panics_recovers:
  assumes "after (Some v) r
             (s\<lparr>spans := spans s @ [(''internal.middleware.Panics'', StartSpan)]\<rparr>) =
           (s2, Panic rv stack)"
  shows "snd (Panics after (Some v) r s) = Return () \<and>
     wcalls (fst (Panics after (Some v) r s)) = wcalls s2 \<and>
     (\<forall>V. rv = AnyValue V \<longrightarrow>
        Panics after (Some v) r s =
          (s2\<lparr>logger := logger s2 @
               [''panic: '' @ V, TraceID (heap s2 v) @ '' :'' @ [CHR 0x0A] @ stack],
             spans := spans s2 @ [(''internal.middleware.Panics'', End)]\<rparr>,
           Return ()))"
  using assms
  by (cases rv) (simp_all add: Panics_def Let_def defer_End_Return recover_def debug_Stack_def
      fmt_v_def)

text \<open>The amended claim on a handler that writes a status line and panics with a value.\<close>

theorem Panics_recovers_witness:
  "boom_handler (Some 0) ()
       (world0\<lparr>spans := spans world0 @ [(''internal.middleware.Panics'', StartSpan)]\<rparr>) =
     (world0\<lparr>spans := [(''internal.middleware.Panics'', StartSpan)],
        wcalls := [WriteHeader 200]\<rparr>,
      Panic (AnyValue ''boom'') ''goroutine 7 [running]:'') \<and>
   Panics boom_handler (Some 0) () world0 =
     (world0\<lparr>wcalls := [WriteHeader 200],
        logger := [''panic: boom'', ''trace-1 :'' @ [CHR 0x0A] @ ''goroutine 7 [running]:''],
        spans :=
          [(''internal.middleware.Panics'', StartSpan), (''internal.middleware.Panics'', End)]\<rparr>,
      Return ())"
proof -
  have h: "boom_handler (Some 0) ()
       (world0\<lparr>spans := spans world0 @ [(''internal.middleware.Panics'', StartSpan)]\<rparr>) =
     (world0\<lparr>spans := [(''internal.middleware.Panics'', StartSpan)],
        wcalls := [WriteHeader 200]\<rparr>,
      Panic (AnyValue ''boom'') ''goroutine 7 [running]:'')"
    by (simp add: boom_handler_def world0_def)
  note t = Panics_recovers [where after = boom_handler and v = 0 and r = "()" and s = world0, OF h]
  note full = t [THEN conjunct2, THEN conjunct2, THEN spec [of _ "''boom''"], THEN mp, OF refl]
  from full have "Panics boom_handler (Some 0) () world0 =
     (world0\<lparr>wcalls := [WriteHeader 200],
        logger := [''panic: boom'', ''trace-1 :'' @ [CHR 0x0A] @ ''goroutine 7 [running]:''],
        spans :=
          [(''internal.middleware.Panics'', StartSpan), (''internal.middleware.Panics'', End)]\<rparr>,
      Return ())"
    by (simp add: world0_def)
  with h show ?thesis by simp
qed

section \<open>A context without the request-scoped values\<close>

text \<open>
  Claim C7. When the context does not carry the \<^verbatim>\<open>Values\<close> struct, \<^verbatim>\<open>Respond\<close> and
  \<^verbatim>\<open>Panics\<close> end in \<^verbatim>\<open>log.Fatal\<close>: the process exits. \<^verbatim>\<open>Respond\<close> has only given
  the message to the standard logger; \<^verbatim>\<open>Panics\<close> has only started its span and given
  the message to its logger. In both, the calls on the writer are those made before, and
  the result of \<^verbatim>\<open>Panics\<close> is the same for every handler it wraps: the handler is not
  called.
\<close>

theorem missing_Values_is_fatal:
  "Respond Marshal None data statusCode s =
     (s\<lparr>stdlog := stdlog s @ [''web value missing from context'']\<rparr>, OsExit) \<and>
   wcalls (fst (Respond Marshal None data statusCode s)) = wcalls s \<and>
   Panics after None r s =
     (s\<lparr>spans := spans s @ [(''internal.middleware.Panics'', StartSpan)],
        logger := logger s @ [''web value missing from context'']\<rparr>,
      OsExit) \<and>
   wcalls (fst (Panics after None r s)) = wcalls s \<and>
   Panics after None r s = Panics after' None r s"
  by (simp add: Respond_missing Panics_def Let_def)

section \<open>Tagging the span\<close>

text \<open>
  Claim C8. \<^verbatim>\<open>zipkinSetErrorOnSpan\<close> with code \<open>C\<close>, detail \<open>D\<close> and status \<open>N\<close>
  adds to the span the string attribute \<^verbatim>\<open>error\<close> with value \<open>C\<close>, then the string
  attribute \<^verbatim>\<open>message\<close> with value \<open>D\<close> if and only if \<open>D\<close> is not empty, then sets
  the status of the span to \<open>N\<close>; it does nothing else. In particular, for a public
  error with an empty detail (the \<^verbatim>\<open>Values\<close> struct present, the status not 204),
  \<^verbatim>\<open>RespondError\<close> attaches no \<^verbatim>\<open>message\<close> attribute to its span, and the body it
  writes has the field \<^verbatim>\<open>message\<close> with the empty string.
\<close>

theorem zipkinSetErrorOnSpan_tags:
  \<open>zipkinSetErrorOnSpan span C D N s =
     s\<lparr>spans := spans s @
         [(span, AddStringAttribute ''error'' C)] @
         (if D = '''' then [] else [(span, AddStringAttribute ''message'' D)]) @
         [(span, SetStatus N)]\<rparr> \<and>
   (Cause err = Some e \<and> PublicError e = Some (C, '''') \<and> statusCode \<noteq> StatusNoContent \<longrightarrow>
      spans (fst (RespondError esc (Some v) err statusCode s)) =
        spans s @
          [(''web.RespondError'', StartSpan),
           (''web.RespondError'', AddStringAttribute ''error'' C),
           (''web.RespondError'', SetStatus (ucast statusCode)),
           (''web.RespondError'', End)] \<and>
      wcalls (fst (RespondError esc (Some v) err statusCode s)) =
        wcalls s @
          [HeaderSet ''Content-Type'' ''application/json; charset=utf-8'',
           WriteHeader statusCode,
           Write (''{"error":'' @ json_string esc C @ '',"message":""}'')])\<close>
proof (intro conjI impI)
  show "zipkinSetErrorOnSpan span C D N s =
     s\<lparr>spans := spans s @
         [(span, AddStringAttribute ''error'' C)] @
         (if D = '''' then [] else [(span, AddStringAttribute ''message'' D)]) @
         [(span, SetStatus N)]\<rparr>"
    by (rule zipkin_spans)
next
  assume a: "Cause err = Some e \<and> PublicError e = Some (C, '''') \<and> statusCode \<noteq> StatusNoContent"
  then have c: "Cause err = Some e" and p: "PublicError e = Some (C, '''')"
    and n: "statusCode \<noteq> StatusNoContent"
    by simp_all
  note b = RespondError_public_body [OF c p n, of esc v s]
  show "spans (fst (RespondError esc (Some v) err statusCode s)) =
        spans s @
          [(''web.RespondError'', StartSpan),
           (''web.RespondError'', AddStringAttribute ''error'' C),
           (''web.RespondError'', SetStatus (ucast statusCode)),
           (''web.RespondError'', End)]"
    unfolding b by simp
  show \<open>wcalls (fst (RespondError esc (Some v) err statusCode s)) =
        wcalls s @
          [HeaderSet ''Content-Type'' ''application/json; charset=utf-8'',
           WriteHeader statusCode,
           Write (''{"error":'' @ json_string esc C @ '',"message":""}'')]\<close>
    unfolding b by (simp add: json_ErrorResponse_def json_string_def)
qed

text \<open>The second part of the claim on a public error with an empty detail, with status 418.\<close>

theorem zipkinSetErrorOnSpan_tags_witness:
  \<open>Cause (Some teapot) = Some teapot \<and> PublicError teapot = Some (''teapot'', '''') \<and>
   (418::go_int) \<noteq> StatusNoContent \<and>
   spans (fst (RespondError sample_escape (Some 0) (Some teapot) 418 world0)) =
     [(''web.RespondError'', StartSpan),
      (''web.RespondError'', AddStringAttribute ''error'' ''teapot''),
      (''web.RespondError'', SetStatus 418),
      (''web.RespondError'', End)] \<and>
   wcalls (fst (RespondError sample_escape (Some 0) (Some teapot) 418 world0)) =
     [HeaderSet ''Content-Type'' ''application/json; charset=utf-8'',
      WriteHeader 418,
      Write ''{"error":"teapot","message":""}'']\<close>
proof -
  have c: "Cause (Some teapot) = Some teapot"
    by (simp add: teapot_def)
  have p: "PublicError teapot = Some (''teapot'', '''')"
    by (simp add: teapot_def)
  have n: "(418::go_int) \<noteq> StatusNoContent"
    by (simp add: StatusNoContent_def)
  have q: "json_string sample_escape ''teapot'' = [CHR 0x22] @ ''teapot'' @ [CHR 0x22]"
    by (simp add: json_string_def htmlSafe_def)
  note t = zipkinSetErrorOnSpan_tags [where err = "Some teapot" and e = teapot
      and C = "''teapot''" and statusCode = 418 and esc = sample_escape and v = 0 and s = world0]
  note r = t [THEN conjunct2, THEN mp, OF conjI [OF c conjI [OF p n]]]
  from r c p n show ?thesis
    by (simp add: q world0_def)
qed

section \<open>The recorded status\<close>

text \<open>
  Claim C9. Whenever \<^verbatim>\<open>Respond\<close> finds the \<^verbatim>\<open>Values\<close> struct, the field
  \<^verbatim>\<open>StatusCode\<close> of that struct holds the given status afterwards, on every path: the
  early return for 204, a failed serialization, a failed or successful write. When the
  serialization fails, the error is returned and the recorded status is the one change of
  the state: nothing went to the writer, and the struct has been updated all the same.
\<close>

theorem Respond_records_status_first:
  "StatusCode (heap (fst (Respond Marshal (Some v) data statusCode s)) v) = statusCode \<and>
   (statusCode \<noteq> StatusNoContent \<and> Marshal data = Inl e \<longrightarrow>
      Respond Marshal (Some v) data statusCode s =
        (s\<lparr>heap := (heap s)(v := (heap s v)\<lparr>StatusCode := statusCode\<rparr>)\<rparr>, Return (Some e)))"
proof (intro conjI impI)
  show "StatusCode (heap (fst (Respond Marshal (Some v) data statusCode s)) v) = statusCode"
  proof (cases "statusCode = StatusNoContent")
    case True
    then show ?thesis by (simp add: Respond_NoContent)
  next
    case False
    then show ?thesis
      by (cases "Marshal data") (simp_all add: Respond_serializes)
  qed
next
  assume "statusCode \<noteq> StatusNoContent \<and> Marshal data = Inl e"
  then show "Respond Marshal (Some v) data statusCode s =
        (s\<lparr>heap := (heap s)(v := (heap s v)\<lparr>StatusCode := statusCode\<rparr>)\<rparr>, Return (Some e))"
    by (simp add: Respond_serializes)
qed

text \<open>
  The claim on a channel with status 200: the struct held status 0 before the call, and
  holds 200 after the call that returned the error of the serializer.
\<close>

theorem Respond_records_status_first_witness:
  "(200::go_int) \<noteq> StatusNoContent \<and> Marshal_chan () = Inl unsupported_type \<and>
   StatusCode (heap world0 0) = 0 \<and>
   Respond Marshal_chan (Some 0) () 200 world0 =
     (world0\<lparr>heap := (heap world0)(0 := \<lparr>StatusCode = 200, TraceID = ''trace-1''\<rparr>)\<rparr>,
      Return (Some unsupported_type)) \<and>
   StatusCode (heap (fst (Respond Marshal_chan (Some 0) () 200 world0)) 0) = 200"
proof -
  have n: "(200::go_int) \<noteq> StatusNoContent"
    by (simp add: StatusNoContent_def)
  have m: "Marshal_chan () = Inl unsupported_type"
    by (simp add: Marshal_chan_def)
  note t = Respond_records_status_first [of Marshal_chan 0 "()" 200 world0 unsupported_type]
  note r = t [THEN conjunct2, THEN mp, OF conjI [OF n m]]
  from r t [THEN conjunct1] n m show ?thesis
    by (simp add: world0_def)
qed

section \<open>A nil error\<close>

text \<open>
  Claim C10. For a nil error, \<^verbatim>\<open>errors.Cause\<close> returns nil, the type switch takes its
  default case, and \<^verbatim>\<open>RespondError\<close> answers as for an opaque error: with the
  \<^verbatim>\<open>Values\<close> struct present, status 500, the body with "Internal Server Error" and an
  empty message, and the span tagged \<^verbatim>\<open>server_error\<close> with status 500. In every
  context, the result is that of an error without any capability, whatever the statuses
  given by the caller.
\<close>

theorem RespondError_nil:
  \<open>Cause None = None \<and>
   RespondError esc (Some v) None statusCode s =
     (s\<lparr>heap := (heap s)(v := (heap s v)\<lparr>StatusCode := 500\<rparr>),
        spans := spans s @
          [(''web.RespondError'', StartSpan),
           (''web.RespondError'', AddStringAttribute ''error'' ''server_error''),
           (''web.RespondError'', SetStatus 500),
           (''web.RespondError'', End)],
        wcalls := wcalls s @
          [HeaderSet ''Content-Type'' ''application/json; charset=utf-8'',
           WriteHeader 500,
           Write ''{"error":"Internal Server Error","message":""}'']\<rparr>,
      Return (write_err s ''{"error":"Internal Server Error","message":""}'')) \<and>
   RespondError esc ctx None statusCode s =
     RespondError esc ctx (Some (GoError m None None)) statusCode' s\<close>
proof -
  have h0: "\<forall>e. Cause None = Some e \<longrightarrow> PublicError e = None"
    by simp
  have h1: "\<forall>e. Cause (Some (GoError m None None)) = Some e \<longrightarrow> PublicError e = None"
    by auto
  have same: "RespondError esc ctx None statusCode s =
     RespondError esc ctx (Some (GoError m None None)) statusCode' s"
    by (simp only: RespondError_default [OF h0] RespondError_default [OF h1])
  from RespondError_default_body [OF h0, of esc v statusCode s] same show ?thesis
    by simp
qed

end
